theory Spec2Isabelle
  imports Main "HOL-Library.Sublist"
begin

section \<open>Values exchanged with the outside world\<close>

text \<open>
  The notebook \<^verbatim>\<open>Tutorial_notebook.ipynb\<close> defines two functions,
  \<^verbatim>\<open>generate_post\<close> and \<^verbatim>\<open>send_feedback_to_phoenix\<close>. Both are glue around
  library calls (the tracer, the chat-completion client, the HTTP client).
  Python strings are modelled as \<^typ>\<open>string\<close>, holding the UTF-8 bytes of the text: the
  code only compares strings for equality, concatenates them and tests them for
  emptiness, and UTF-8 preserves all three.

  An exception is a class name and the text that \<^verbatim>\<open>str(e)\<close> gives. Only instances of
  \<^verbatim>\<open>Exception\<close> are modelled, which is what both \<^verbatim>\<open>except Exception\<close> clauses catch;
  \<^verbatim>\<open>KeyboardInterrupt\<close> and \<^verbatim>\<open>SystemExit\<close> are outside the model.
\<close>

datatype exn = Exn (exn_class: string) (exn_str: string)

text \<open>The value handed to \<^verbatim>\<open>json=\<close>: dictionaries keep their insertion order.\<close>

datatype json =
    JNull
  | JBool bool
  | JInt int
  | JString string
  | JArray "json list"
  | JObject "(string \<times> json) list"

text \<open>
  Every library call the two functions make is recorded, in order, with its arguments.
  \<^item> \<open>StartSpan name attributes\<close>: \<^verbatim>\<open>tracer.start_as_current_span(name, attributes=...)\<close>;
  \<^item> \<open>SetAttribute key value\<close>: \<^verbatim>\<open>span.set_attribute(key, value)\<close>;
  \<^item> \<open>ChatCompletionsCreate model messages\<close>: \<^verbatim>\<open>client.chat.completions.create(...)\<close>,
    each message a (role, content) pair;
  \<^item> \<open>EndSpan\<close>: leaving the \<^verbatim>\<open>with\<close> block;
  \<^item> \<open>NewHttpClient\<close>: \<^verbatim>\<open>httpx.Client()\<close>;
  \<^item> \<open>HttpPost url body\<close>: \<^verbatim>\<open>client.post(url, json=body)\<close>.
\<close>

datatype event =
    StartSpan string "(string \<times> string) list"
  | SetAttribute string string
  | ChatCompletionsCreate string "(string \<times> string) list"
  | EndSpan
  | NewHttpClient
  | HttpPost string json

text \<open>
  What the outside world answers. \<open>span_context_span_id\<close> is the integer the tracer
  minted for the span it opened; \<open>chat_completions_create\<close> answers a request with the
  \<^verbatim>\<open>message.content\<close> of each choice, or raises; \<open>httpx_Client\<close> is the outcome of
  constructing the HTTP client (\<open>None\<close>: constructed); \<open>client_post\<close> answers a POST with
  a status code, or raises (timeouts, refused connections, a body that does not
  serialise).
\<close>

record env =
  span_context_span_id :: int
  chat_completions_create :: "string \<Rightarrow> (string \<times> string) list \<Rightarrow> exn + string list"
  httpx_Client :: "exn option"
  client_post :: "string \<Rightarrow> json \<Rightarrow> exn + int"

section \<open>The post generator\<close>











section \<open>The feedback relay\<close>

text \<open>The two glyphs, as their UTF-8 bytes: U+1F44D (thumbs up) and U+1F44E (thumbs down).\<close>

definition thumbs_up :: string where
  "thumbs_up = [CHR 0xF0, CHR 0x9F, CHR 0x91, CHR 0x8D]"

definition thumbs_down :: string where
  "thumbs_down = [CHR 0xF0, CHR 0x9F, CHR 0x91, CHR 0x8E]"

text \<open>The dictionary literal bound to \<^verbatim>\<open>annotation_payload\<close>.\<close>

definition annotation_payload :: "string \<Rightarrow> string \<Rightarrow> int \<Rightarrow> string \<Rightarrow> json" where
  "annotation_payload span_id label score feedback_type =
     JObject [(''data'', JArray [
       JObject [(''span_id'', JString span_id),
                (''name'', JString ''user feedback''),
                (''annotator_kind'', JString ''HUMAN''),
                (''result'', JObject [
                   (''label'', JString label),
                   (''score'', JInt score),
                   (''explanation'', JString (''User provided '' @ feedback_type @ '' feedback''))]),
                (''metadata'', JObject [])]])]"

text \<open>
  The body of the \<^verbatim>\<open>try\<close> block of \<^verbatim>\<open>send_feedback_to_phoenix\<close>, entered with the client
  constructed and \<^verbatim>\<open>label\<close> and \<^verbatim>\<open>score\<close> bound.
\<close>

definition send_feedback_try ::
    "env \<Rightarrow> string \<Rightarrow> string \<Rightarrow> int \<Rightarrow> string \<Rightarrow> (exn + bool) \<times> event list" where
  "send_feedback_try w span_id label score feedback_type =
     (let payload = annotation_payload span_id label score feedback_type;
          url = ''http://localhost:6006/v1/span_annotations?sync=false''
      in case client_post w url payload of
           Inl e \<Rightarrow> (Inl e, [HttpPost url payload])
         | Inr status_code \<Rightarrow> (Inr (status_code = 200), [HttpPost url payload]))"

text \<open>
  \<^verbatim>\<open>send_feedback_to_phoenix\<close>. The identifier is \<open>None\<close> for Python's \<^verbatim>\<open>None\<close>;
  \<^verbatim>\<open>not span_id\<close> holds for \<^verbatim>\<open>None\<close> and for the empty string. The client is constructed
  before the \<^verbatim>\<open>try\<close> block, so an exception of the constructor leaves the function
  (\<open>Inl\<close>); one raised inside the block is turned into \<^verbatim>\<open>False\<close>.
\<close>

definition send_feedback_to_phoenix ::
    "env \<Rightarrow> string option \<Rightarrow> string \<Rightarrow> (exn + bool) \<times> event list" where
  "send_feedback_to_phoenix w span_id feedback_type =
     (case span_id of
        None \<Rightarrow> (Inr False, [])
      | Some sid \<Rightarrow>
          if sid = [] then (Inr False, [])
          else (case httpx_Client w of
                  Some e \<Rightarrow> (Inl e, [NewHttpClient])
                | None \<Rightarrow>
                    (let label = (if feedback_type = ''like'' then thumbs_up else thumbs_down);
                         score = (if feedback_type = ''like'' then 1 else 0)
                     in case send_feedback_try w sid label score feedback_type of
                          (Inr r, calls) \<Rightarrow> (Inr r, NewHttpClient # calls)
                        | (Inl _, calls) \<Rightarrow> (Inr False, NewHttpClient # calls))))"

section \<open>Reading results back\<close>



text \<open>The value stored under a key of a JSON object.\<close>

fun json_get :: "json \<Rightarrow> string \<Rightarrow> json option" where
  "json_get (JObject kvs) k = map_of kvs k"
| "json_get _ _ = None"

text \<open>The requests posted, the attributes given when the span was started, and the
  \<^verbatim>\<open>set_attribute\<close> calls, each in the order of the calls.\<close>

fun http_posts :: "event list \<Rightarrow> (string \<times> json) list" where
  "http_posts [] = []"
| "http_posts (HttpPost url body # calls) = (url, body) # http_posts calls"
| "http_posts (_ # calls) = http_posts calls"



text \<open>
  A mock outside world that gives the same answer to every request: the span identifier,
  the answer of the completion call, the outcome of constructing the HTTP client and the
  answer of the annotation endpoint.
\<close>

definition mock_env :: "int \<Rightarrow> exn + string list \<Rightarrow> exn option \<Rightarrow> exn + int \<Rightarrow> env" where
  "mock_env sid completion ctor answer =
     \<lparr>span_context_span_id = sid,
      chat_completions_create = (\<lambda>_ _. completion),
      httpx_Client = ctor,
      client_post = (\<lambda>_ _. answer)\<rparr>"

section \<open>Hexadecimal formatting\<close>












section \<open>The three ways through the feedback relay\<close>

lemma thumbs_distinct: "thumbs_up \<noteq> thumbs_down"
  by (simp add: thumbs_up_def thumbs_down_def)

lemma send_feedback_to_phoenix_guard:
  "send_feedback_to_phoenix w None p = (Inr False, [])"
  "send_feedback_to_phoenix w (Some []) p = (Inr False, [])"
  by (simp_all add: send_feedback_to_phoenix_def)

lemma send_feedback_to_phoenix_ctor_raises:
  "sid \<noteq> [] \<Longrightarrow> httpx_Client w = Some e \<Longrightarrow>
   send_feedback_to_phoenix w (Some sid) p = (Inl e, [NewHttpClient])"
  by (simp add: send_feedback_to_phoenix_def)

lemma send_feedback_to_phoenix_posts:
  assumes "sid \<noteq> []" "httpx_Client w = None"
  shows "send_feedback_to_phoenix w (Some sid) p =
           (Inr (client_post w ''http://localhost:6006/v1/span_annotations?sync=false''
                   (annotation_payload sid (if p = ''like'' then thumbs_up else thumbs_down)
                      (if p = ''like'' then 1 else 0) p) = Inr 200),
            [NewHttpClient,
             HttpPost ''http://localhost:6006/v1/span_annotations?sync=false''
               (annotation_payload sid (if p = ''like'' then thumbs_up else thumbs_down)
                  (if p = ''like'' then 1 else 0) p)])"
  using assms
  by (simp add: send_feedback_to_phoenix_def send_feedback_try_def Let_def split: sum.splits)

lemma annotation_payload_fields:
  "\<exists>entry result.
      annotation_payload sid label score p = JObject [(''data'', JArray [entry])] \<and>
      json_get entry ''span_id'' = Some (JString sid) \<and>
      json_get entry ''name'' = Some (JString ''user feedback'') \<and>
      json_get entry ''annotator_kind'' = Some (JString ''HUMAN'') \<and>
      json_get entry ''result'' = Some result \<and>
      json_get result ''label'' = Some (JString label) \<and>
      json_get result ''score'' = Some (JInt score) \<and>
      json_get result ''explanation'' = Some (JString (''User provided '' @ p @ '' feedback'')) \<and>
      json_get entry ''metadata'' = Some (JObject [])"
  by (simp add: annotation_payload_def)

section \<open>The two ways through the post generator\<close>






section \<open>Properties of the feedback relay\<close>

text \<open>
  C1. For every identifier, every polarity string and every outside world, the relay
  posts either nothing or one payload. It posts nothing only when the identifier is
  \<^verbatim>\<open>None\<close> or empty or the constructor of the HTTP client raises. The payload it posts
  otherwise goes to the annotation endpoint and carries, in the result object of its one
  record, the label thumbs-up and the score 1 when the polarity is exactly \<^verbatim>\<open>like\<close>,
  and the label thumbs-down and the score 0 for every other polarity string. The two
  labels differ.
\<close>

theorem relay_label_score:
  "((\<exists>entry result.
       http_posts (snd (send_feedback_to_phoenix w span_id feedback_type)) =
         [(''http://localhost:6006/v1/span_annotations?sync=false'',
           JObject [(''data'', JArray [entry])])] \<and>
       json_get entry ''result'' = Some result \<and>
       json_get result ''label'' =
         Some (JString (if feedback_type = ''like'' then thumbs_up else thumbs_down)) \<and>
       json_get result ''score'' = Some (JInt (if feedback_type = ''like'' then 1 else 0)))
    \<or> (http_posts (snd (send_feedback_to_phoenix w span_id feedback_type)) = [] \<and>
        (span_id = None \<or> span_id = Some [] \<or> (\<exists>e. httpx_Client w = Some e)))) \<and>
   thumbs_up \<noteq> thumbs_down"
proof -
  consider (absent) "span_id = None \<or> span_id = Some []"
    | (raises) sid e where "span_id = Some sid" "sid \<noteq> []" "httpx_Client w = Some e"
    | (posts) sid where "span_id = Some sid" "sid \<noteq> []" "httpx_Client w = None"
    by (cases span_id; cases "httpx_Client w") auto
  then have "(\<exists>entry result.
       http_posts (snd (send_feedback_to_phoenix w span_id feedback_type)) =
         [(''http://localhost:6006/v1/span_annotations?sync=false'',
           JObject [(''data'', JArray [entry])])] \<and>
       json_get entry ''result'' = Some result \<and>
       json_get result ''label'' =
         Some (JString (if feedback_type = ''like'' then thumbs_up else thumbs_down)) \<and>
       json_get result ''score'' = Some (JInt (if feedback_type = ''like'' then 1 else 0)))
    \<or> (http_posts (snd (send_feedback_to_phoenix w span_id feedback_type)) = [] \<and>
        (span_id = None \<or> span_id = Some [] \<or> (\<exists>e. httpx_Client w = Some e)))"
  proof cases
    case absent
    then show ?thesis by (auto simp: send_feedback_to_phoenix_guard)
  next
    case raises
    then show ?thesis by (simp add: send_feedback_to_phoenix_ctor_raises)
  next
    case posts
    then have "http_posts (snd (send_feedback_to_phoenix w span_id feedback_type)) =
          [(''http://localhost:6006/v1/span_annotations?sync=false'',
            annotation_payload sid
              (if feedback_type = ''like'' then thumbs_up else thumbs_down)
              (if feedback_type = ''like'' then 1 else 0) feedback_type)]"
      by (simp add: send_feedback_to_phoenix_posts)
    with annotation_payload_fields
           [of sid "if feedback_type = ''like'' then thumbs_up else thumbs_down"
               "if feedback_type = ''like'' then 1 else 0" feedback_type]
    show ?thesis by auto
  qed
  with thumbs_distinct show ?thesis by simp
qed

text \<open>
  With a well-formed identifier and the client constructed: the polarity \<^verbatim>\<open>like\<close> gives
  thumbs-up and 1; \<^verbatim>\<open>Like\<close>, with a capital, is another string and gives thumbs-down
  and 0.
\<close>

theorem relay_label_score_witness:
  "(\<exists>entry result.
      http_posts (snd (send_feedback_to_phoenix (mock_env 0 (Inr []) None (Inr 200))
                         (Some ''27df1f6642d34166'') ''like'')) =
        [(''http://localhost:6006/v1/span_annotations?sync=false'',
          JObject [(''data'', JArray [entry])])] \<and>
      json_get entry ''result'' = Some result \<and>
      json_get result ''label'' = Some (JString thumbs_up) \<and>
      json_get result ''score'' = Some (JInt 1)) \<and>
   (\<exists>entry result.
      http_posts (snd (send_feedback_to_phoenix (mock_env 0 (Inr []) None (Inr 200))
                         (Some ''27df1f6642d34166'') ''Like'')) =
        [(''http://localhost:6006/v1/span_annotations?sync=false'',
          JObject [(''data'', JArray [entry])])] \<and>
      json_get entry ''result'' = Some result \<and>
      json_get result ''label'' = Some (JString thumbs_down) \<and>
      json_get result ''score'' = Some (JInt 0))"
proof -
  have c: "httpx_Client (mock_env 0 (Inr []) None (Inr 200)) = None"
    by (simp add: mock_env_def)
  from relay_label_score
         [of "mock_env 0 (Inr []) None (Inr 200)" "Some ''27df1f6642d34166''" "''like''"]
       relay_label_score
         [of "mock_env 0 (Inr []) None (Inr 200)" "Some ''27df1f6642d34166''" "''Like''"]
  show ?thesis by (simp add: c)
qed

text \<open>
  C2. For every polarity and every outside world, the relay called with the identifier
  \<^verbatim>\<open>None\<close> or with the empty string returns \<^verbatim>\<open>False\<close>, and the number of HTTP POSTs
  it has made is zero.
\<close>

theorem relay_absent_identifier:
  "fst (send_feedback_to_phoenix w None feedback_type) = Inr False \<and>
   length (http_posts (snd (send_feedback_to_phoenix w None feedback_type))) = 0 \<and>
   fst (send_feedback_to_phoenix w (Some '''') feedback_type) = Inr False \<and>
   length (http_posts (snd (send_feedback_to_phoenix w (Some '''') feedback_type))) = 0"
  by (simp add: send_feedback_to_phoenix_def)

text \<open>
  C3. The relay is to return a boolean whatever happens: true exactly when the POST is
  answered with status 200, false for any other status and for any exception, and never
  an exception of its own. The code calls \<^verbatim>\<open>httpx.Client()\<close> before the \<^verbatim>\<open>try\<close>
  block. At the input below, a well-formed identifier, the polarity \<^verbatim>\<open>like\<close> and an
  endpoint that would answer 200, with a constructor that raises (the \<^verbatim>\<open>ImportError\<close>
  of httpx for a SOCKS proxy in the environment without the \<^verbatim>\<open>socksio\<close> package), the
  relay raises that exception instead of returning \<^verbatim>\<open>False\<close>, and makes no POST.
\<close>

theorem relay_client_constructor_raises:
  "send_feedback_to_phoenix
     (mock_env 0 (Inr []) (Some (Exn ''ImportError'' ''socksio is not installed'')) (Inr 200))
     (Some ''27df1f6642d34166'') ''like''
     = (Inl (Exn ''ImportError'' ''socksio is not installed''), [NewHttpClient])"
  by (simp add: send_feedback_to_phoenix_def mock_env_def)

text \<open>
  C5, as amended. For every non-empty identifier \<open>s\<close> and every polarity \<open>p\<close>, the relay,
  its HTTP client constructed, posts one JSON payload; the \<^verbatim>\<open>data\<close> list of the payload
  has exactly one record, with \<^verbatim>\<open>span_id\<close> equal to \<open>s\<close>, \<^verbatim>\<open>name\<close> equal to
  \<^verbatim>\<open>user feedback\<close>, \<^verbatim>\<open>annotator_kind\<close> equal to \<^verbatim>\<open>HUMAN\<close>, a result object with the
  mapped label, the mapped score and the explanation \<^verbatim>\<open>User provided p feedback\<close>, and
  an empty metadata object.
\<close>

theorem relay_payload:
  assumes "span_id \<noteq> []" and "httpx_Client w = None"
  shows "\<exists>url entry result.
      http_posts (snd (send_feedback_to_phoenix w (Some span_id) feedback_type)) =
        [(url, JObject [(''data'', JArray [entry])])] \<and>
      json_get entry ''span_id'' = Some (JString span_id) \<and>
      json_get entry ''name'' = Some (JString ''user feedback'') \<and>
      json_get entry ''annotator_kind'' = Some (JString ''HUMAN'') \<and>
      json_get entry ''result'' = Some result \<and>
      json_get result ''label'' =
        Some (JString (if feedback_type = ''like'' then thumbs_up else thumbs_down)) \<and>
      json_get result ''score'' = Some (JInt (if feedback_type = ''like'' then 1 else 0)) \<and>
      json_get result ''explanation'' =
        Some (JString (''User provided '' @ feedback_type @ '' feedback'')) \<and>
      json_get entry ''metadata'' = Some (JObject [])"
proof -
  have "http_posts (snd (send_feedback_to_phoenix w (Some span_id) feedback_type)) =
          [(''http://localhost:6006/v1/span_annotations?sync=false'',
            annotation_payload span_id
              (if feedback_type = ''like'' then thumbs_up else thumbs_down)
              (if feedback_type = ''like'' then 1 else 0) feedback_type)]"
    using assms by (simp add: send_feedback_to_phoenix_posts)
  with annotation_payload_fields
         [of span_id "if feedback_type = ''like'' then thumbs_up else thumbs_down"
             "if feedback_type = ''like'' then 1 else 0" feedback_type]
  show ?thesis by auto
qed

text \<open>The end-to-end scenario: identifier \<^verbatim>\<open>abc123abc123abcd\<close>, polarity \<^verbatim>\<open>like\<close>.\<close>

theorem relay_payload_witness:
  "''abc123abc123abcd'' \<noteq> [] \<and> httpx_Client (mock_env 0 (Inr []) None (Inr 200)) = None \<and>
   (\<exists>url entry result.
      http_posts (snd (send_feedback_to_phoenix (mock_env 0 (Inr []) None (Inr 200))
                         (Some ''abc123abc123abcd'') ''like'')) =
        [(url, JObject [(''data'', JArray [entry])])] \<and>
      json_get entry ''span_id'' = Some (JString ''abc123abc123abcd'') \<and>
      json_get entry ''name'' = Some (JString ''user feedback'') \<and>
      json_get entry ''annotator_kind'' = Some (JString ''HUMAN'') \<and>
      json_get entry ''result'' = Some result \<and>
      json_get result ''label'' = Some (JString thumbs_up) \<and>
      json_get result ''score'' = Some (JInt 1) \<and>
      json_get result ''explanation'' = Some (JString ''User provided like feedback'') \<and>
      json_get entry ''metadata'' = Some (JObject []))"
proof -
  have a: "''abc123abc123abcd'' \<noteq> []" by simp
  have b: "httpx_Client (mock_env 0 (Inr []) None (Inr 200)) = None"
    by (simp add: mock_env_def)
  from relay_payload [OF a b, of "''like''"] a b show ?thesis by simp
qed

text \<open>
  C5, as stated, speaks of every identifier that is not \<^verbatim>\<open>None\<close>. The empty string is
  such an identifier, and the guard \<^verbatim>\<open>if not span_id\<close> turns it away: the relay returns
  \<^verbatim>\<open>False\<close> and constructs no payload, although the endpoint would answer 200.
\<close>

theorem relay_empty_identifier_counterexample:
  "send_feedback_to_phoenix (mock_env 0 (Inr []) None (Inr 200)) (Some '''') ''like''
     = (Inr False, [])"
  by (simp add: send_feedback_to_phoenix_def)

text \<open>
  C9. The result of the relay does not depend on the polarity: for one identifier, one
  outside world and two polarities, if the endpoint answers the two requests alike, the
  relay returns the same value for both.
\<close>

theorem relay_result_independent_of_polarity:
  assumes "\<And>url body1 body2.
      HttpPost url body1 \<in> set (snd (send_feedback_to_phoenix w span_id p1)) \<Longrightarrow>
      HttpPost url body2 \<in> set (snd (send_feedback_to_phoenix w span_id p2)) \<Longrightarrow>
      client_post w url body1 = client_post w url body2"
  shows "fst (send_feedback_to_phoenix w span_id p1) = fst (send_feedback_to_phoenix w span_id p2)"
proof (cases "span_id = None \<or> span_id = Some []")
  case True
  then show ?thesis by (auto simp: send_feedback_to_phoenix_guard)
next
  case False
  then obtain sid where sid: "span_id = Some sid" "sid \<noteq> []" by (cases span_id) auto
  show ?thesis
  proof (cases "httpx_Client w")
    case None
    with sid have r: "\<And>p. send_feedback_to_phoenix w span_id p =
           (Inr (client_post w ''http://localhost:6006/v1/span_annotations?sync=false''
                   (annotation_payload sid (if p = ''like'' then thumbs_up else thumbs_down)
                      (if p = ''like'' then 1 else 0) p) = Inr 200),
            [NewHttpClient,
             HttpPost ''http://localhost:6006/v1/span_annotations?sync=false''
               (annotation_payload sid (if p = ''like'' then thumbs_up else thumbs_down)
                  (if p = ''like'' then 1 else 0) p)])"
      by (simp add: send_feedback_to_phoenix_posts)
    have "client_post w ''http://localhost:6006/v1/span_annotations?sync=false''
            (annotation_payload sid (if p1 = ''like'' then thumbs_up else thumbs_down)
               (if p1 = ''like'' then 1 else 0) p1)
        = client_post w ''http://localhost:6006/v1/span_annotations?sync=false''
            (annotation_payload sid (if p2 = ''like'' then thumbs_up else thumbs_down)
               (if p2 = ''like'' then 1 else 0) p2)"
      by (rule assms) (simp_all only: r snd_conv list.set insert_iff simp_thms)
    then show ?thesis by (simp only: r fst_conv)
  next
    case (Some e)
    with sid show ?thesis by (simp add: send_feedback_to_phoenix_ctor_raises)
  qed
qed

theorem relay_result_independent_of_polarity_witness:
  "fst (send_feedback_to_phoenix (mock_env 0 (Inr []) None (Inr 200))
          (Some ''27df1f6642d34166'') ''like'') =
   fst (send_feedback_to_phoenix (mock_env 0 (Inr []) None (Inr 200))
          (Some ''27df1f6642d34166'') ''dislike'')"
proof -
  let ?w = "mock_env 0 (Inr []) None (Inr 200)"
  have a: "\<And>url body1 body2. client_post ?w url body1 = client_post ?w url body2"
    by (simp add: mock_env_def)
  show ?thesis
    by (rule relay_result_independent_of_polarity) (rule a)
qed

text \<open>
  C10, as amended. The relay does not check the form of the identifier: for every
  non-empty string \<open>s\<close>, hexadecimal or not, the relay, provided its HTTP client is
  constructed, makes the POST to the annotation endpoint, and the \<^verbatim>\<open>span_id\<close> field of the
  one record it posts is \<open>s\<close> itself.
\<close>

theorem relay_no_identifier_validation:
  assumes "span_id \<noteq> []" and "httpx_Client w = None"
  shows "\<exists>entry.
      http_posts (snd (send_feedback_to_phoenix w (Some span_id) feedback_type)) =
        [(''http://localhost:6006/v1/span_annotations?sync=false'',
          JObject [(''data'', JArray [entry])])] \<and>
      json_get entry ''span_id'' = Some (JString span_id)"
proof -
  have "http_posts (snd (send_feedback_to_phoenix w (Some span_id) feedback_type)) =
          [(''http://localhost:6006/v1/span_annotations?sync=false'',
            annotation_payload span_id
              (if feedback_type = ''like'' then thumbs_up else thumbs_down)
              (if feedback_type = ''like'' then 1 else 0) feedback_type)]"
    using assms by (simp add: send_feedback_to_phoenix_posts)
  with annotation_payload_fields
         [of span_id "if feedback_type = ''like'' then thumbs_up else thumbs_down"
             "if feedback_type = ''like'' then 1 else 0" feedback_type]
  show ?thesis by auto
qed

text \<open>The identifiers \<^verbatim>\<open>garbage\<close> and \<^verbatim>\<open>0000000000000000\<close> are posted as they are.\<close>

theorem relay_no_identifier_validation_witness:
  "''garbage'' \<noteq> [] \<and> ''0000000000000000'' \<noteq> [] \<and>
   httpx_Client (mock_env 0 (Inr []) None (Inr 200)) = None \<and>
   (\<exists>entry.
      http_posts (snd (send_feedback_to_phoenix (mock_env 0 (Inr []) None (Inr 200))
                         (Some ''garbage'') ''like'')) =
        [(''http://localhost:6006/v1/span_annotations?sync=false'',
          JObject [(''data'', JArray [entry])])] \<and>
      json_get entry ''span_id'' = Some (JString ''garbage'')) \<and>
   (\<exists>entry.
      http_posts (snd (send_feedback_to_phoenix (mock_env 0 (Inr []) None (Inr 200))
                         (Some ''0000000000000000'') ''dislike'')) =
        [(''http://localhost:6006/v1/span_annotations?sync=false'',
          JObject [(''data'', JArray [entry])])] \<and>
      json_get entry ''span_id'' = Some (JString ''0000000000000000''))"
proof -
  have a: "''garbage'' \<noteq> []" and a': "''0000000000000000'' \<noteq> []" by simp_all
  have b: "httpx_Client (mock_env 0 (Inr []) None (Inr 200)) = None"
    by (simp add: mock_env_def)
  from relay_no_identifier_validation [OF a b, of "''like''"]
       relay_no_identifier_validation [OF a' b, of "''dislike''"] a a' b
  show ?thesis by simp
qed

text \<open>
  C10, as stated, has the relay make the POST for every non-empty identifier. When the
  constructor of the HTTP client raises, the relay has no client to post with: for the
  identifier \<^verbatim>\<open>garbage\<close> nothing is posted.
\<close>

theorem relay_no_client_no_post_counterexample:
  "http_posts (snd (send_feedback_to_phoenix
     (mock_env 0 (Inr []) (Some (Exn ''ImportError'' ''socksio is not installed'')) (Inr 200))
     (Some ''garbage'') ''like'')) = []"
  by (simp add: send_feedback_to_phoenix_def mock_env_def)

section \<open>Properties of the post generator\<close>











end
